theory Spec2Isabelle
  imports Complex_Main "HOL-Library.Multiset"
begin

section \<open>MagDronePost: postProcess.py as a pipeline of total functions\<close>

text \<open>
  The script is straight-line Python over numerical libraries. Floating-point numbers
  are idealised as reals; a float cell that may be missing is NaN or a value.
  Every exception the script can meet is a value of \<open>py_error\<close>; the script has no
  \<open>try\<close>, so the first error ends the run.
\<close>

datatype py_error =
    FileNotFoundError
  | ParserError
  | ConnectionError
  | KeyError string
  | AttributeError string
  | ValueError string
  | TypeError
  | IndexError
  | ZeroDivisionError
  | IOError

datatype cell = NaN | Val real

text \<open>A labelled 2-D array (xarray.DataArray): one row of cells per northing coordinate,
  one cell per easting coordinate in each row.\<close>

record data_array =
  northing :: "real list"
  easting :: "real list"
  cells :: "cell list list"

text \<open>A Dataset is a list of named variables; what flows into the pole reduction is either
  a single DataArray or a whole Dataset.\<close>

type_synonym dataset = "(string \<times> data_array) list"

datatype xr = DataArray data_array | Dataset dataset

subsection \<open>numpy.median, numpy.nanmedian, fillna\<close>

definition median :: "real list \<Rightarrow> real" where
  "median xs =
     (let s = sort xs; n = length s
      in if odd n then s ! (n div 2) else (s ! (n div 2 - 1) + s ! (n div 2)) / 2)"

fun values_of :: "cell list \<Rightarrow> real list" where
  "values_of [] = []"
| "values_of (NaN # cs) = values_of cs"
| "values_of (Val v # cs) = v # values_of cs"

text \<open>\<open>np.nanmedian\<close>: the median of the cells that are not NaN; NaN (with a warning, not
  an exception) when every cell is NaN.\<close>

definition nanmedian :: "data_array \<Rightarrow> cell" where
  "nanmedian a =
     (let vs = values_of (concat (cells a))
      in if vs = [] then NaN else Val (median vs))"

fun fill_cell :: "cell \<Rightarrow> cell \<Rightarrow> cell" where
  "fill_cell v NaN = v"
| "fill_cell v (Val x) = Val x"

definition fillna :: "data_array \<Rightarrow> cell \<Rightarrow> data_array" where
  "fillna a v = a\<lparr>cells := map (map (fill_cell v)) (cells a)\<rparr>"

definition has_nan :: "data_array \<Rightarrow> bool" where
  "has_nan a = (NaN \<in> set (concat (cells a)))"

text \<open>\<open>grid_full.isnull().any()\<close> is again a Dataset: for each variable, whether one of its
  cells is NaN.\<close>

definition isnull_any :: "dataset \<Rightarrow> (string \<times> bool) list" where
  "isnull_any ds = map (\<lambda>(name, g). (name, has_nan g)) ds"

text \<open>The truth value that \<open>if\<close> takes of a Dataset (line 152). xarray defines it as
  \<open>bool(self.data_vars)\<close>: a Dataset is true as soon as it has a variable, whatever the
  variable holds.\<close>

definition truth_value :: "(string \<times> bool) list \<Rightarrow> bool" where
  "truth_value ds = (ds \<noteq> [])"

definition total_field_anomaly :: "dataset \<Rightarrow> py_error + data_array" where
  "total_field_anomaly ds =
     (case map_of ds ''total_field_anomaly'' of
        None \<Rightarrow> Inl (AttributeError ''total_field_anomaly'')
      | Some a \<Rightarrow> Inr a)"

text \<open>Lines 152-156 of the script.\<close>

definition filled :: "dataset \<Rightarrow> py_error + xr" where
  "filled grid_full =
     (if truth_value (isnull_any grid_full)
      then (case total_field_anomaly grid_full of
              Inl e \<Rightarrow> Inl e
            | Inr a \<Rightarrow> Inr (DataArray (fillna a (nanmedian a))))
      else Inr (Dataset grid_full))"

subsection \<open>Script inputs (lines 53-63) and the external collaborators\<close>

definition dir :: string where
  "dir = ''//fsa-gpa-nas01.fsa.uliege.priv/geophysicalData/Drones/20230504-VielleMontagne/Mag/''"

definition data :: string where
  "data = ''MeasureDir1_PostProcess1.csv''"

definition resultsTif :: string where
  "resultsTif = ''Reduced2PoleDataSens.tif''"

definition latitude :: real where "latitude = 50.6297580"
definition longitude :: real where "longitude = 5.478596"
definition altitude :: real where "altitude = 0.200"
definition date :: string where "date = ''2023-05-04''"

definition fieldCompute :: string where
  "fieldCompute = '' B1Tot''"

definition spacingBlock :: real where
  "spacingBlock = 5"

text \<open>A pandas DataFrame: named columns of float cells. The service answers with nested
  dictionaries.\<close>

type_synonym dataframe = "(string \<times> cell list) list"

datatype json = JNum real | JObj "(string \<times> json) list"

type_synonym coords = "real list \<times> real list"

type_synonym region = "real \<times> real \<times> real \<times> real"

text \<open>rasterio's Affine: pixel (col, row) is sent to
  (coef_a * col + coef_b * row + coef_c, coef_d * col + coef_e * row + coef_f).\<close>

record affine =
  coef_a :: real
  coef_b :: real
  coef_c :: real
  coef_d :: real
  coef_e :: real
  coef_f :: real

record raster =
  height :: nat
  width :: nat
  count :: nat
  crs :: string
  transform :: affine
  band :: "cell list list"

text \<open>What the script calls and does not define: the CSV reader, the geomagnetic service,
  verde's block reduction and spline, the numerical operator of the pole reduction and the
  raster file. Each is a parameter of the run and may fail.\<close>

record world =
  read_csv :: "string \<Rightarrow> py_error + dataframe"
  calculate :: "real \<Rightarrow> real \<Rightarrow> real \<Rightarrow> string \<Rightarrow> py_error + json"
  reducer_filter :: "real \<Rightarrow> cell list \<times> cell list \<Rightarrow> cell list \<Rightarrow> py_error + (coords \<times> real list)"
  spline_fit :: "coords \<Rightarrow> real list \<Rightarrow> py_error + (region \<Rightarrow> real \<Rightarrow> py_error + dataset)"
  rtp_operator :: "real list list \<Rightarrow> real \<Rightarrow> real \<Rightarrow> real list list"
  rtp_refusal :: "dataset \<Rightarrow> py_error"
  raster_write :: "string \<Rightarrow> raster \<Rightarrow> py_error + unit"

subsection \<open>Lines 71-98: loading, site parameters, decimation\<close>

definition column :: "dataframe \<Rightarrow> string \<Rightarrow> py_error + cell list" where
  "column df name = (case map_of df name of None \<Rightarrow> Inl (KeyError name) | Some col \<Rightarrow> Inr col)"

definition item :: "json \<Rightarrow> string \<Rightarrow> py_error + json" where
  "item j k =
     (case j of
        JNum x \<Rightarrow> Inl TypeError
      | JObj kvs \<Rightarrow> (case map_of kvs k of None \<Rightarrow> Inl (KeyError k) | Some v \<Rightarrow> Inr v))"

definition item2 :: "json \<Rightarrow> string \<Rightarrow> string \<Rightarrow> py_error + json" where
  "item2 j k1 k2 = (case item j k1 of Inl err \<Rightarrow> Inl err | Inr v \<Rightarrow> item v k2)"

text \<open>Lines 81-84: (inclinationSite, declinationSite, totalIntensity).\<close>

definition site_parameters :: "json \<Rightarrow> py_error + (json \<times> json \<times> json)" where
  "site_parameters results =
     (case item results ''field-value'' of
        Inl err \<Rightarrow> Inl err
      | Inr fieldCalc \<Rightarrow>
          (case item2 fieldCalc ''inclination'' ''value'' of
             Inl err \<Rightarrow> Inl err
           | Inr inclinationSite \<Rightarrow>
               (case item2 fieldCalc ''declination'' ''value'' of
                  Inl err \<Rightarrow> Inl err
                | Inr declinationSite \<Rightarrow>
                    (case item2 fieldCalc ''total-intensity'' ''value'' of
                       Inl err \<Rightarrow> Inl err
                     | Inr totalIntensity \<Rightarrow>
                         Inr (inclinationSite, declinationSite, totalIntensity)))))"

definition minus_const :: "cell list \<Rightarrow> real \<Rightarrow> cell list" where
  "minus_const col k = map (\<lambda>v. case v of NaN \<Rightarrow> NaN | Val x \<Rightarrow> Val (x - k)) col"

text \<open>Lines 96-98.\<close>

definition decimate :: "world \<Rightarrow> dataframe \<Rightarrow> py_error + (coords \<times> real list)" where
  "decimate w df =
     (case column df '' X_BD72_m'' of
        Inl err \<Rightarrow> Inl err
      | Inr xs \<Rightarrow>
          (case column df '' Y_BD72_m'' of
             Inl err \<Rightarrow> Inl err
           | Inr ys \<Rightarrow>
               (case column df fieldCompute of
                  Inl err \<Rightarrow> Inl err
                | Inr field \<Rightarrow> reducer_filter w spacingBlock (xs, ys) (minus_const field 48925))))"

subsection \<open>Lines 115-138: spline, padded region, distance mask\<close>

definition get_region :: "coords \<Rightarrow> py_error + region" where
  "get_region cs =
     (case cs of
        (x # xs, y # ys) \<Rightarrow> Inr (fold min xs x, fold max xs x, fold min ys y, fold max ys y)
      | _ \<Rightarrow> Inl (ValueError ''zero-size array''))"

definition pad_region :: "region \<Rightarrow> real \<Rightarrow> region" where
  "pad_region r pad = (case r of (w, ea, s, n) \<Rightarrow> (w - pad, ea + pad, s - pad, n + pad))"

text \<open>Modelled from the spec: verde's \<open>distance_mask\<close> is not in the repository. The spec:
  grid cells farther than a distance threshold from any input point are masked as invalid.
  The Euclidean distance is compared through its square (the threshold is not negative).\<close>

definition near :: "coords \<Rightarrow> real \<Rightarrow> real \<Rightarrow> real \<Rightarrow> bool" where
  "near coordinates maxdist x y =
     list_ex (\<lambda>(px, py). (px - x)\<^sup>2 + (py - y)\<^sup>2 \<le> maxdist\<^sup>2)
       (zip (fst coordinates) (snd coordinates))"

definition mask :: "coords \<Rightarrow> real \<Rightarrow> data_array \<Rightarrow> bool list list" where
  "mask coordinates maxdist g =
     map (\<lambda>y. map (\<lambda>x. near coordinates maxdist x y) (easting g)) (northing g)"

definition where_mask :: "bool list list \<Rightarrow> cell list list \<Rightarrow> cell list list" where
  "where_mask m cs = map2 (\<lambda>mrow row. map2 (\<lambda>keep v. if keep then v else NaN) mrow row) m cs"

definition distance_mask_array :: "coords \<Rightarrow> real \<Rightarrow> data_array \<Rightarrow> data_array" where
  "distance_mask_array coordinates maxdist g =
     g\<lparr>cells := where_mask (mask coordinates maxdist g) (cells g)\<rparr>"

definition distance_mask :: "coords \<Rightarrow> real \<Rightarrow> dataset \<Rightarrow> dataset" where
  "distance_mask coordinates maxdist grid =
     map (\<lambda>(name, g). (name, distance_mask_array coordinates maxdist g)) grid"

text \<open>Lines 115-138: the region, \<open>grid_full\<close> and the masked \<open>grid\<close>.\<close>

definition interpolate :: "world \<Rightarrow> coords \<Rightarrow> real list \<Rightarrow> py_error + (region \<times> dataset \<times> dataset)" where
  "interpolate w coordinates magField =
     (case spline_fit w coordinates magField of
        Inl err \<Rightarrow> Inl err
      | Inr spline_grid \<Rightarrow>
          (case get_region coordinates of
             Inl err \<Rightarrow> Inl err
           | Inr r \<Rightarrow>
               (let region = pad_region r 50 in
                case spline_grid region 1 of
                  Inl err \<Rightarrow> Inl err
                | Inr grid_full \<Rightarrow>
                    Inr (region, grid_full, distance_mask coordinates 20 grid_full))))"

subsection \<open>Lines 152-160: reduction to the pole\<close>

definition as_float :: "json \<Rightarrow> py_error + real" where
  "as_float j = (case j of JNum x \<Rightarrow> Inr x | JObj kvs \<Rightarrow> Inl TypeError)"

text \<open>The numbers of a row that holds no NaN (\<open>.values\<close>); it is applied to such rows only.\<close>

fun the_values :: "cell list \<Rightarrow> real list" where
  "the_values [] = []"
| "the_values (NaN # cs) = 0 # the_values cs"
| "the_values (Val v # cs) = v # the_values cs"

text \<open>Modelled from the spec: harmonica's \<open>reduction_to_pole\<close> is not in the repository.
  The spec: its input is a gridded total-field anomaly (with NaNs filled), its output a grid
  of identical shape and region with transformed values. The numerical operator is the
  parameter \<open>rtp_operator\<close>; it is only applied to an array without NaN. A whole Dataset
  is not such a grid; the exception it meets is the parameter \<open>rtp_refusal\<close>.\<close>

definition reduction_to_pole :: "world \<Rightarrow> xr \<Rightarrow> json \<Rightarrow> json \<Rightarrow> py_error + data_array" where
  "reduction_to_pole w grid inclination declination =
     (case grid of
        Dataset ds \<Rightarrow> Inl (rtp_refusal w ds)
      | DataArray g \<Rightarrow>
          if has_nan g then Inl (ValueError ''Found nan(s) on the passed grid'')
          else (case as_float inclination of
                  Inl err \<Rightarrow> Inl err
                | Inr inc \<Rightarrow>
                    (case as_float declination of
                       Inl err \<Rightarrow> Inl err
                     | Inr dec \<Rightarrow>
                         Inr (g\<lparr>cells :=
                           map (map Val) (rtp_operator w (map the_values (cells g)) inc dec)\<rparr>))))"

definition to_dataset :: "data_array \<Rightarrow> string \<Rightarrow> dataset" where
  "to_dataset g name = [(name, g)]"

text \<open>Lines 152-160: \<open>gridReduced\<close>.\<close>

definition reduce_stage :: "world \<Rightarrow> coords \<Rightarrow> dataset \<Rightarrow> json \<Rightarrow> json \<Rightarrow> py_error + dataset" where
  "reduce_stage w coordinates grid_full inclinationSite declinationSite =
     (case filled grid_full of
        Inl err \<Rightarrow> Inl err
      | Inr fl \<Rightarrow>
          (case reduction_to_pole w fl inclinationSite declinationSite of
             Inl err \<Rightarrow> Inl err
           | Inr rtp_grid \<Rightarrow>
               Inr (distance_mask coordinates 20 (to_dataset rtp_grid ''total_field_anomaly''))))"


subsection \<open>Lines 182-202: the raster\<close>

definition shape :: "data_array \<Rightarrow> nat \<times> nat" where
  "shape g = (length (northing g), length (easting g))"

text \<open>Lines 182-190: \<open>to_array\<close> stacks the variables of \<open>gridReduced\<close> (here always the one
  made by \<open>to_dataset\<close>) into an array of shape (1, rows, columns); \<open>np.squeeze\<close> drops every
  axis of length one, \<open>np.flipud\<close> reverses the first axis and refuses a 0-d array, and
  \<open>shape[1]\<close> of a 1-d array raises IndexError.\<close>

definition reducedMag :: "dataset \<Rightarrow> py_error + (nat \<times> nat \<times> cell list list)" where
  "reducedMag gridReduced =
     (case gridReduced of
        [(name, g)] \<Rightarrow>
          (case shape g of (rows, cols) \<Rightarrow>
             if rows = 1 \<and> cols = 1 then Inl (ValueError ''Input must be >= 1-d'')
             else if rows = 1 \<or> cols = 1 then Inl IndexError
             else Inr (rows, cols, rev (cells g)))
      | _ \<Rightarrow> Inl (ValueError ''not a single band''))"

text \<open>Modelled from the spec: rasterio's \<open>from_bounds\<close> is not in the repository. It is
  the translation to (west, north) followed by the scaling to the cell size; the spec: an
  affine transform mapping pixel indices to geographic coordinates from the region bounds
  and array shape. The cell sizes of an array with no row or no column are left as HOL's
  division gives them; nothing below depends on them.\<close>

definition from_bounds :: "real \<Rightarrow> real \<Rightarrow> real \<Rightarrow> real \<Rightarrow> nat \<Rightarrow> nat \<Rightarrow> affine" where
  "from_bounds west south east north wd ht =
     \<lparr>coef_a = (east - west) / real wd, coef_b = 0, coef_c = west,
      coef_d = 0, coef_e = (south - north) / real ht, coef_f = north\<rparr>"

definition apply_affine :: "affine \<Rightarrow> real \<Rightarrow> real \<Rightarrow> real \<times> real" where
  "apply_affine t col row =
     (coef_a t * col + coef_b t * row + coef_c t, coef_d t * col + coef_e t * row + coef_f t)"

definition lambert_72 :: string where
  "lambert_72 = ''EPSG:31370''"

text \<open>Lines 190-200: the arguments of \<open>rasterio.open\<close> and the band it is given.\<close>

definition make_raster :: "region \<Rightarrow> dataset \<Rightarrow> py_error + raster" where
  "make_raster region gridReduced =
     (case reducedMag gridReduced of
        Inl err \<Rightarrow> Inl err
      | Inr (rows, cols, arr) \<Rightarrow>
          (case region of (r0, r1, r2, r3) \<Rightarrow>
             Inr \<lparr>height = rows, width = cols, count = 1, crs = lambert_72,
                  transform = from_bounds r0 r2 r1 r3 cols rows, band = arr\<rparr>))"

subsection \<open>The run\<close>

definition process :: "world \<Rightarrow> dataframe \<Rightarrow> json \<Rightarrow> json \<Rightarrow> py_error + raster" where
  "process w df inclinationSite declinationSite =
     (case decimate w df of
        Inl err \<Rightarrow> Inl err
      | Inr (coordinates, magField) \<Rightarrow>
          (case interpolate w coordinates magField of
             Inl err \<Rightarrow> Inl err
           | Inr (region, grid_full, grid) \<Rightarrow>
               (case reduce_stage w coordinates grid_full inclinationSite declinationSite of
                  Inl err \<Rightarrow> Inl err
                | Inr gridReduced \<Rightarrow> make_raster region gridReduced)))"

text \<open>What the run does to the outside, in order: it asks for the CSV, calls the service,
  prints the site parameters and writes the raster. A call is logged when it is made, the
  raster when it has been written. The figures (matplotlib) and the other prints take no
  part in the values computed and are left out.\<close>

datatype event =
    ReadCsv string
  | ServiceCall
  | PrintField json json json
  | RasterWrite string raster

definition run :: "world \<Rightarrow> event list \<times> (py_error + unit)" where
  "run w =
     (case read_csv w (dir @ data) of
        Inl err \<Rightarrow> ([ReadCsv (dir @ data)], Inl err)
      | Inr df \<Rightarrow>
          (case calculate w latitude longitude altitude date of
             Inl err \<Rightarrow> ([ReadCsv (dir @ data), ServiceCall], Inl err)
           | Inr results \<Rightarrow>
               (case site_parameters results of
                  Inl err \<Rightarrow> ([ReadCsv (dir @ data), ServiceCall], Inl err)
                | Inr (inclinationSite, declinationSite, totalIntensity) \<Rightarrow>
                    (case process w df inclinationSite declinationSite of
                       Inl err \<Rightarrow>
                         ([ReadCsv (dir @ data), ServiceCall,
                           PrintField totalIntensity inclinationSite declinationSite], Inl err)
                     | Inr r \<Rightarrow>
                         (case raster_write w (dir @ resultsTif) r of
                            Inl err \<Rightarrow>
                              ([ReadCsv (dir @ data), ServiceCall,
                                PrintField totalIntensity inclinationSite declinationSite], Inl err)
                          | Inr u \<Rightarrow>
                              ([ReadCsv (dir @ data), ServiceCall,
                                PrintField totalIntensity inclinationSite declinationSite,
                                RasterWrite (dir @ resultsTif) r], Inr ()))))))"

fun rasters_written :: "event list \<Rightarrow> (string \<times> raster) list" where
  "rasters_written [] = []"
| "rasters_written (RasterWrite p r # evs) = (p, r) # rasters_written evs"
| "rasters_written (ev # evs) = rasters_written evs"

text \<open>The interpolated grid \<open>grid_full\<close> a run reaches (lines 71-135).\<close>

definition grid_full_of :: "world \<Rightarrow> py_error + dataset" where
  "grid_full_of w =
     (case read_csv w (dir @ data) of
        Inl err \<Rightarrow> Inl err
      | Inr df \<Rightarrow>
          (case calculate w latitude longitude altitude date of
             Inl err \<Rightarrow> Inl err
           | Inr results \<Rightarrow>
               (case site_parameters results of
                  Inl err \<Rightarrow> Inl err
                | Inr params \<Rightarrow>
                    (case decimate w df of
                       Inl err \<Rightarrow> Inl err
                     | Inr (coordinates, magField) \<Rightarrow>
                         (case interpolate w coordinates magField of
                            Inl err \<Rightarrow> Inl err
                          | Inr (region, grid_full, grid) \<Rightarrow> Inr grid_full)))))"

definition all_nan :: "dataset \<Rightarrow> bool" where
  "all_nan ds =
     (case total_field_anomaly ds of
        Inl err \<Rightarrow> False
      | Inr g \<Rightarrow> concat (cells g) \<noteq> [] \<and> list_all (\<lambda>v. v = NaN) (concat (cells g)))"


subsection \<open>Block reduction (lines 96-98)\<close>

text \<open>Modelled from the spec: verde's \<open>BlockReduce\<close> is not in the repository. The spec:
  it partitions the plane into bins of the spacing and computes the median value (and
  representative coordinate) per occupied bin. A point is (x, y, value); a bin is named by
  the integer pair of its lower-left corner in units of the spacing.\<close>

definition block :: "real \<Rightarrow> real \<times> real \<times> real \<Rightarrow> int \<times> int" where
  "block spacing p = (case p of (x, y, v) \<Rightarrow> (\<lfloor>x / spacing\<rfloor>, \<lfloor>y / spacing\<rfloor>))"

definition occupied :: "real \<Rightarrow> (real \<times> real \<times> real) list \<Rightarrow> (int \<times> int) list" where
  "occupied spacing pts = remdups (map (block spacing) pts)"

definition members :: "real \<Rightarrow> (real \<times> real \<times> real) list \<Rightarrow> int \<times> int \<Rightarrow> (real \<times> real \<times> real) list" where
  "members spacing pts k = filter (\<lambda>p. block spacing p = k) pts"

definition reduce_block :: "(real \<times> real \<times> real) list \<Rightarrow> real \<times> real \<times> real" where
  "reduce_block ps =
     (median (map fst ps), median (map (\<lambda>p. fst (snd p)) ps), median (map (\<lambda>p. snd (snd p)) ps))"

definition BlockReduce_filter :: "real \<Rightarrow> (real \<times> real \<times> real) list \<Rightarrow> (real \<times> real \<times> real) list" where
  "BlockReduce_filter spacing pts =
     map (\<lambda>k. reduce_block (members spacing pts k)) (occupied spacing pts)"

subsection \<open>A small survey, used to run the definitions\<close>

definition example_df :: dataframe where
  "example_df =
     [('' X_BD72_m'', [Val 0, Val 10]),
      ('' Y_BD72_m'', [Val 0, Val 10]),
      ('' B1Tot'', [Val 48930, Val 48920])]"

definition example_results :: "real \<Rightarrow> json" where
  "example_results t =
     JObj [(''field-value'',
       JObj [(''inclination'', JObj [(''value'', JNum 65)]),
             (''declination'', JObj [(''value'', JNum 2)]),
             (''total-intensity'', JObj [(''value'', JNum t)])])]"

definition example_array :: data_array where
  "example_array =
     \<lparr>northing = [0, 10], easting = [0, 10, 100],
      cells = [[Val 1, NaN, Val 5], [Val 3, Val 2, Val 7]]\<rparr>"

definition example_grid :: dataset where
  "example_grid = [(''total_field_anomaly'', example_array)]"

definition clean_array :: data_array where
  "clean_array =
     \<lparr>northing = [0, 10], easting = [0, 10, 100],
      cells = [[Val 1, Val 4, Val 5], [Val 3, Val 2, Val 7]]\<rparr>"

definition clean_grid :: dataset where
  "clean_grid = [(''total_field_anomaly'', clean_array)]"

definition nan_grid :: dataset where
  "nan_grid =
     [(''total_field_anomaly'',
       \<lparr>northing = [0, 10], easting = [0, 10, 100],
        cells = [[NaN, NaN, NaN], [NaN, NaN, NaN]]\<rparr>)]"

definition example_world :: "real \<Rightarrow> dataset \<Rightarrow> world" where
  "example_world t grid_full =
     \<lparr>read_csv = (\<lambda>path. if path = dir @ data then Inr example_df else Inl FileNotFoundError),
      calculate = (\<lambda>lat lon alt day. Inr (example_results t)),
      reducer_filter = (\<lambda>spacing cs vs. Inr ((the_values (fst cs), the_values (snd cs)), the_values vs)),
      spline_fit = (\<lambda>cs vs. Inr (\<lambda>region spacing. Inr grid_full)),
      rtp_operator = (\<lambda>vals inc dec. vals),
      rtp_refusal = (\<lambda>ds. TypeError),
      raster_write = (\<lambda>path r. Inr ())\<rparr>"

definition offline_world :: world where
  "offline_world = (example_world 48000 example_grid)\<lparr>
      calculate := (\<lambda>lat lon alt day. Inl ConnectionError)\<rparr>"

definition example_raster :: raster where
  "example_raster =
     \<lparr>height = 2, width = 3, count = 1, crs = ''EPSG:31370'',
      transform = \<lparr>coef_a = 110 / 3, coef_b = 0, coef_c = -50,
                   coef_d = 0, coef_e = -55, coef_f = 60\<rparr>,
      band = [[Val 3, Val 2, NaN], [Val 1, Val 3, NaN]]\<rparr>"

section \<open>Properties\<close>

subsection \<open>The small survey, evaluated\<close>

lemma example_read_csv: "read_csv (example_world t gf) (dir @ data) = Inr example_df"
  by (simp add: example_world_def)

lemma example_calculate:
  "calculate (example_world t gf) latitude longitude altitude date = Inr (example_results t)"
  by (simp add: example_world_def)

lemma example_site_parameters:
  "site_parameters (example_results t) = Inr (JNum 65, JNum 2, JNum t)"
  by (simp add: site_parameters_def example_results_def item_def item2_def)

lemma example_decimate:
  "decimate (example_world t gf) example_df = Inr (([0, 10], [0, 10]), [5, -5])"
  by (simp add: decimate_def column_def example_df_def fieldCompute_def example_world_def
      minus_const_def)

lemma example_interpolate:
  "interpolate (example_world t gf) ([0, 10], [0, 10]) [5, -5]
     = Inr ((-50, 60, -50, 60), gf, distance_mask ([0, 10], [0, 10]) 20 gf)"
  by (simp add: interpolate_def example_world_def get_region_def pad_region_def)

lemma example_grid_full_of: "grid_full_of (example_world t gf) = Inr gf"
  by (simp add: grid_full_of_def example_read_csv example_calculate example_site_parameters
      example_decimate example_interpolate)

lemma total_field_anomaly_truth:
  "total_field_anomaly ds = Inr g \<Longrightarrow> truth_value (isnull_any ds)"
  by (cases ds) (simp_all add: total_field_anomaly_def truth_value_def isnull_any_def)

lemma filled_variable:
  "total_field_anomaly grid_full = Inr g \<Longrightarrow>
   filled grid_full = Inr (DataArray (fillna g (nanmedian g)))"
  by (simp add: filled_def total_field_anomaly_truth)

lemma fillna_unchanged: "\<not> has_nan g \<Longrightarrow> fillna g v = g"
proof -
  assume n: "\<not> has_nan g"
  have f: "fill_cell v x = x" if "x \<noteq> NaN" for x
    using that by (cases x) simp_all
  have "map (fill_cell v) row = row" if "row \<in> set (cells g)" for row
  proof (rule map_idI)
    fix x assume "x \<in> set row"
    with that n have "x \<noteq> NaN" by (auto simp: has_nan_def)
    then show "fill_cell v x = x" by (rule f)
  qed
  then have "map (map (fill_cell v)) (cells g) = cells g"
    by (rule map_idI)
  then show ?thesis by (simp add: fillna_def)
qed

lemma example_total_field_anomaly: "total_field_anomaly example_grid = Inr example_array"
  by (simp add: example_grid_def total_field_anomaly_def)

lemma example_nanmedian: "nanmedian example_array = Val 3"
  by (simp add: example_array_def nanmedian_def median_def)

lemma example_filled:
  "filled example_grid = Inr (DataArray \<lparr>northing = [0, 10], easting = [0, 10, 100],
      cells = [[Val 1, Val 3, Val 5], [Val 3, Val 2, Val 7]]\<rparr>)"
  by (simp add: filled_variable [OF example_total_field_anomaly] example_nanmedian)
     (simp add: fillna_def example_array_def)

lemma clean_total_field_anomaly: "total_field_anomaly clean_grid = Inr clean_array"
  by (simp add: clean_grid_def total_field_anomaly_def)

lemma clean_no_nan: "\<not> has_nan clean_array"
  by (simp add: clean_array_def has_nan_def)


lemma example_reduce_stage:
  "reduce_stage (example_world t gf) ([0, 10], [0, 10]) example_grid (JNum 65) (JNum 2)
     = Inr [(''total_field_anomaly'', \<lparr>northing = [0, 10], easting = [0, 10, 100],
         cells = [[Val 1, Val 3, NaN], [Val 3, Val 2, NaN]]\<rparr>)]"
  by (simp add: reduce_stage_def example_filled reduction_to_pole_def has_nan_def as_float_def
      example_world_def to_dataset_def distance_mask_def distance_mask_array_def mask_def
      near_def where_mask_def)

lemma example_make_raster:
  "make_raster (-50, 60, -50, 60)
     [(''total_field_anomaly'', \<lparr>northing = [0, 10], easting = [0, 10, 100],
         cells = [[Val 1, Val 3, NaN], [Val 3, Val 2, NaN]]\<rparr>)] = Inr example_raster"
  by (simp add: make_raster_def reducedMag_def shape_def from_bounds_def lambert_72_def
      example_raster_def)

lemma example_process:
  "process (example_world t example_grid) example_df (JNum 65) (JNum 2) = Inr example_raster"
  by (simp add: process_def example_decimate example_interpolate example_reduce_stage
      example_make_raster)

lemma example_run:
  "run (example_world t example_grid) =
     ([ReadCsv (dir @ data), ServiceCall, PrintField (JNum t) (JNum 65) (JNum 2),
       RasterWrite (dir @ resultsTif) example_raster], Inr ())"
  by (simp add: run_def example_read_csv example_calculate example_site_parameters example_process)
     (simp add: example_world_def)

lemma offline_run:
  "run offline_world = ([ReadCsv (dir @ data), ServiceCall], Inl ConnectionError)"
  by (simp add: run_def offline_world_def example_world_def)

lemma nan_grid_all_nan: "all_nan nan_grid"
  by (simp add: all_nan_def nan_grid_def total_field_anomaly_def)

lemma fill_cell_no_nan: "v \<noteq> NaN \<Longrightarrow> fill_cell v x \<noteq> NaN"
  by (cases x) simp_all

lemma fill_cell_eq: "fill_cell v x = (if x = NaN then v else x)"
  by (cases x) simp_all

lemma nanmedian_Val:
  "values_of (concat (cells g)) \<noteq> [] \<Longrightarrow> nanmedian g = Val (median (values_of (concat (cells g))))"
  by (simp add: nanmedian_def Let_def)

lemma fillna_no_nan: "v \<noteq> NaN \<Longrightarrow> \<not> has_nan (fillna g v)"
  by (auto simp: has_nan_def fillna_def) (metis fill_cell_no_nan)

text \<open>Claim C1. The value handed to the pole reduction is the anomaly array of \<open>grid_full\<close>
  in which every NaN cell (so every NaN cell of the unmasked interior too) holds the grid's
  median, the median of the cells that are not NaN, and every other cell is unchanged; if
  at least one cell has a value, no NaN is left, so the fill stands in for a failure of the
  next stage. When the grid has no NaN cell the array is passed on unchanged.\<close>

theorem C1_nan_cells_filled_with_median:
  assumes "total_field_anomaly grid_full = Inr g"
  shows "filled grid_full = Inr (DataArray (fillna g (nanmedian g)))
       \<and> northing (fillna g (nanmedian g)) = northing g
       \<and> easting (fillna g (nanmedian g)) = easting g
       \<and> length (cells (fillna g (nanmedian g))) = length (cells g)
       \<and> (\<forall>i j. i < length (cells g) \<and> j < length (cells g ! i) \<longrightarrow>
             length (cells (fillna g (nanmedian g)) ! i) = length (cells g ! i)
           \<and> cells (fillna g (nanmedian g)) ! i ! j =
               (if cells g ! i ! j = NaN then nanmedian g else cells g ! i ! j))
       \<and> (values_of (concat (cells g)) \<noteq> [] \<longrightarrow>
             nanmedian g = Val (median (values_of (concat (cells g))))
           \<and> \<not> has_nan (fillna g (nanmedian g)))
       \<and> (\<not> has_nan g \<longrightarrow> filled grid_full = Inr (DataArray g))"
proof -
  have cellwise: "cells (fillna g v) ! i ! j = (if cells g ! i ! j = NaN then v else cells g ! i ! j)"
    if "i < length (cells g)" "j < length (cells g ! i)" for v i j
    using that by (simp add: fillna_def fill_cell_eq)
  have len: "length (cells (fillna g v) ! i) = length (cells g ! i)" if "i < length (cells g)" for v i
    using that by (simp add: fillna_def)
  have nonan: "\<not> has_nan (fillna g (nanmedian g))" if "values_of (concat (cells g)) \<noteq> []"
    using that by (simp add: fillna_no_nan nanmedian_Val)
  have same: "filled grid_full = Inr (DataArray g)" if "\<not> has_nan g"
    using that assms by (simp add: filled_variable fillna_unchanged)
  have coords: "northing (fillna g (nanmedian g)) = northing g"
    "easting (fillna g (nanmedian g)) = easting g"
    "length (cells (fillna g (nanmedian g))) = length (cells g)"
    by (simp_all add: fillna_def)
  show ?thesis
    using filled_variable [OF assms] cellwise len nonan same coords nanmedian_Val [of g]
    by simp
qed

theorem C1_witness:
  "total_field_anomaly example_grid = Inr example_array
   \<and> has_nan example_array
   \<and> filled example_grid = Inr (DataArray \<lparr>northing = [0, 10], easting = [0, 10, 100],
         cells = [[Val 1, Val 3, Val 5], [Val 3, Val 2, Val 7]]\<rparr>)
   \<and> nanmedian example_array = Val 3
   \<and> total_field_anomaly clean_grid = Inr clean_array
   \<and> \<not> has_nan clean_array
   \<and> filled clean_grid = Inr (DataArray clean_array)"
proof -
  have n: "has_nan example_array"
    by (simp add: example_array_def has_nan_def)
  show ?thesis
    using C1_nan_cells_filled_with_median [OF example_total_field_anomaly]
      C1_nan_cells_filled_with_median [OF clean_total_field_anomaly]
      example_total_field_anomaly example_filled example_nanmedian n
      clean_total_field_anomaly clean_no_nan
    by blast
qed

lemma run_failure_writes_nothing:
  "snd (run w) = Inl err \<Longrightarrow> rasters_written (fst (run w)) = []"
  by (auto simp: run_def split: sum.splits prod.splits)

lemma run_read_csv_fails:
  "read_csv w (dir @ data) = Inl err \<Longrightarrow> snd (run w) = Inl err"
  by (simp add: run_def)

lemma run_calculate_fails:
  "calculate w latitude longitude altitude date = Inl err \<Longrightarrow> \<exists>err'. snd (run w) = Inl err'"
  by (auto simp: run_def split: sum.splits prod.splits)

lemma run_site_parameters_fails:
  "calculate w latitude longitude altitude date = Inr results \<Longrightarrow> site_parameters results = Inl err
     \<Longrightarrow> \<exists>err'. snd (run w) = Inl err'"
  by (auto simp: run_def split: sum.splits prod.splits)

lemma run_process_fails:
  "read_csv w (dir @ data) = Inr df \<Longrightarrow> calculate w latitude longitude altitude date = Inr results
     \<Longrightarrow> site_parameters results = Inr (inc, dec, tot) \<Longrightarrow> process w df inc dec = Inl err
     \<Longrightarrow> snd (run w) = Inl err"
  by (simp add: run_def)

lemma values_of_empty_iff: "values_of cs = [] \<longleftrightarrow> (\<forall>v \<in> set cs. v = NaN)"
  by (induction cs rule: values_of.induct) auto

lemma total_field_anomaly_member:
  "total_field_anomaly ds = Inr g \<Longrightarrow> (''total_field_anomaly'', g) \<in> set ds"
  by (auto simp: total_field_anomaly_def split: option.splits dest: map_of_SomeD)

lemma all_nan_filled:
  assumes "all_nan gf"
  shows "\<exists>g. filled gf = Inr (DataArray g) \<and> has_nan g"
proof -
  from assms obtain g where g: "total_field_anomaly gf = Inr g"
    and ne: "concat (cells g) \<noteq> []" and nan: "\<forall>v \<in> set (concat (cells g)). v = NaN"
    by (auto simp: all_nan_def list_all_iff split: sum.splits)
  from ne have v: "hd (concat (cells g)) \<in> set (concat (cells g))" by (rule hd_in_set)
  with nan have "hd (concat (cells g)) = NaN" by blast
  with v have hn: "has_nan g" unfolding has_nan_def by simp
  from g have "truth_value (isnull_any gf)"
    by (rule total_field_anomaly_truth)
  moreover have "nanmedian g = NaN"
    using nan by (simp add: nanmedian_def values_of_empty_iff)
  moreover have "fillna g NaN = g"
  proof -
    have "fill_cell NaN = id" by (rule ext) (case_tac x; simp)
    then show ?thesis by (simp add: fillna_def)
  qed
  ultimately show ?thesis using g hn by (simp add: filled_def)
qed

lemma all_nan_reduce_stage_fails:
  "all_nan gf \<Longrightarrow> \<exists>err. reduce_stage w coordinates gf inc dec = Inl err"
  by (auto simp: reduce_stage_def reduction_to_pole_def dest!: all_nan_filled)

lemma grid_full_of_all_nan_fails:
  assumes "grid_full_of w = Inr gf" "all_nan gf"
  shows "\<exists>err. snd (run w) = Inl err"
proof -
  from assms(1) obtain df results inc dec tot coordinates magField region grid where
    s: "read_csv w (dir @ data) = Inr df" "calculate w latitude longitude altitude date = Inr results"
       "site_parameters results = Inr (inc, dec, tot)" "decimate w df = Inr (coordinates, magField)"
       "interpolate w coordinates magField = Inr (region, gf, grid)"
    by (auto simp: grid_full_of_def split: sum.splits prod.splits)
  from all_nan_reduce_stage_fails [OF assms(2)] obtain err
    where "reduce_stage w coordinates gf inc dec = Inl err" by blast
  with s have "process w df inc dec = Inl err" by (simp add: process_def)
  with s show ?thesis by (auto dest: run_process_fails)
qed

lemma decimate_missing_column:
  assumes "name = '' X_BD72_m'' \<or> name = '' Y_BD72_m'' \<or> name = fieldCompute"
    and "column df name = Inl err"
  shows "\<exists>err'. decimate w df = Inl err'"
  using assms by (auto simp: decimate_def split: sum.splits)

lemma run_decimate_fails:
  "read_csv w (dir @ data) = Inr df \<Longrightarrow> decimate w df = Inl err
     \<Longrightarrow> \<exists>err'. snd (run w) = Inl err'"
  by (auto simp: run_def process_def split: sum.splits prod.splits)

text \<open>Claim C2. A run in which the CSV cannot be read (missing file, malformed file, or a
  column the script asks for is absent), the service call fails, or the interpolated grid
  is all NaN ends with an error, and no raster has been written. The all-NaN grid is not
  stopped by the script itself: its median is NaN, the fill leaves it as it is, and the
  pole reduction refuses a grid with NaN.\<close>

theorem C2_failures_halt_before_raster:
  assumes "(\<exists>err. read_csv w (dir @ data) = Inl err)
         \<or> (\<exists>df name err. read_csv w (dir @ data) = Inr df
               \<and> (name = '' X_BD72_m'' \<or> name = '' Y_BD72_m'' \<or> name = fieldCompute)
               \<and> column df name = Inl err)
         \<or> (\<exists>err. calculate w latitude longitude altitude date = Inl err)
         \<or> (\<exists>gf. grid_full_of w = Inr gf \<and> all_nan gf)"
  shows "(\<exists>err. snd (run w) = Inl err) \<and> rasters_written (fst (run w)) = []"
proof -
  from assms have "\<exists>err. snd (run w) = Inl err"
    using run_read_csv_fails run_calculate_fails grid_full_of_all_nan_fails
      decimate_missing_column [of _ _ _ w] run_decimate_fails [of w]
    by metis
  then show ?thesis using run_failure_writes_nothing by blast
qed

theorem C2_witness:
  "grid_full_of (example_world 48000 nan_grid) = Inr nan_grid
   \<and> all_nan nan_grid
   \<and> (\<exists>err. snd (run (example_world 48000 nan_grid)) = Inl err)
   \<and> rasters_written (fst (run (example_world 48000 nan_grid))) = []
   \<and> read_csv (example_world 48000 nan_grid\<lparr>read_csv := (\<lambda>path. Inl FileNotFoundError)\<rparr>) (dir @ data)
        = Inl FileNotFoundError
   \<and> rasters_written (fst (run (example_world 48000 nan_grid\<lparr>read_csv := (\<lambda>path. Inl FileNotFoundError)\<rparr>))) = []
   \<and> calculate offline_world latitude longitude altitude date = Inl ConnectionError
   \<and> rasters_written (fst (run offline_world)) = []
   \<and> column [] fieldCompute = Inl (KeyError fieldCompute)
   \<and> rasters_written (fst (run (example_world 48000 nan_grid\<lparr>read_csv := (\<lambda>path. Inr [])\<rparr>))) = []"
proof -
  have d: "read_csv (example_world 48000 nan_grid\<lparr>read_csv := (\<lambda>path. Inr [])\<rparr>) (dir @ data) = Inr []
      \<and> column [] fieldCompute = Inl (KeyError fieldCompute)"
    by (simp add: column_def)
  have a: "grid_full_of (example_world 48000 nan_grid) = Inr nan_grid \<and> all_nan nan_grid"
    by (simp add: example_grid_full_of nan_grid_all_nan)
  have b: "read_csv (example_world 48000 nan_grid\<lparr>read_csv := (\<lambda>path. Inl FileNotFoundError)\<rparr>) (dir @ data)
        = Inl FileNotFoundError"
    by simp
  have c: "calculate offline_world latitude longitude altitude date = Inl ConnectionError"
    by (simp add: offline_world_def)
  show ?thesis
    using a b c d
      C2_failures_halt_before_raster [of "example_world 48000 nan_grid\<lparr>read_csv := (\<lambda>path. Inr [])\<rparr>"]
      C2_failures_halt_before_raster [of "example_world 48000 nan_grid"]
      C2_failures_halt_before_raster [of "example_world 48000 nan_grid\<lparr>read_csv := (\<lambda>path. Inl FileNotFoundError)\<rparr>"]
      C2_failures_halt_before_raster [of offline_world]
    by blast
qed

lemma rasters_written_append:
  "rasters_written (xs @ ys) = rasters_written xs @ rasters_written ys"
  by (induction xs rule: rasters_written.induct) auto

lemma run_write_after_service:
  assumes "fst (run w) = pre @ RasterWrite p r # post"
  shows "ServiceCall \<in> set pre \<and> post = []
       \<and> (\<exists>results params. calculate w latitude longitude altitude date = Inr results
             \<and> site_parameters results = Inr params)"
  using assms
  by (auto simp: run_def Cons_eq_append_conv append_eq_Cons_conv split: sum.splits prod.splits)

text \<open>Claim C7. If the service call fails, or its answer lacks a field the script reads, the
  run ends with an error and no raster has been written; and whenever a raster is written,
  the service call comes before it in the run and has answered with all the fields.\<close>

theorem C7_service_failure_aborts_before_raster:
  "((\<exists>err. calculate w latitude longitude altitude date = Inl err)
     \<or> (\<exists>results err. calculate w latitude longitude altitude date = Inr results
           \<and> site_parameters results = Inl err)
    \<longrightarrow> (\<exists>err. snd (run w) = Inl err) \<and> rasters_written (fst (run w)) = [])
   \<and> (\<forall>pre p r post. fst (run w) = pre @ RasterWrite p r # post \<longrightarrow>
         ServiceCall \<in> set pre
       \<and> (\<exists>results params. calculate w latitude longitude altitude date = Inr results
             \<and> site_parameters results = Inr params))"
proof -
  have "\<exists>err. snd (run w) = Inl err"
    if "(\<exists>err. calculate w latitude longitude altitude date = Inl err)
     \<or> (\<exists>results err. calculate w latitude longitude altitude date = Inr results
           \<and> site_parameters results = Inl err)"
    using that run_calculate_fails run_site_parameters_fails by blast
  then show ?thesis
    using run_failure_writes_nothing run_write_after_service by blast
qed

theorem C7_witness:
  "calculate offline_world latitude longitude altitude date = Inl ConnectionError
   \<and> snd (run offline_world) = Inl ConnectionError
   \<and> rasters_written (fst (run offline_world)) = []
   \<and> fst (run (example_world 48000 example_grid)) =
        [ReadCsv (dir @ data), ServiceCall, PrintField (JNum 48000) (JNum 65) (JNum 2)]
        @ RasterWrite (dir @ resultsTif) example_raster # []
   \<and> ServiceCall \<in> set [ReadCsv (dir @ data), ServiceCall, PrintField (JNum 48000) (JNum 65) (JNum 2)]"
proof -
  have c: "calculate offline_world latitude longitude altitude date = Inl ConnectionError"
    by (simp add: offline_world_def)
  have t: "fst (run (example_world 48000 example_grid)) =
        [ReadCsv (dir @ data), ServiceCall, PrintField (JNum 48000) (JNum 65) (JNum 2)]
        @ RasterWrite (dir @ resultsTif) example_raster # []"
    by (simp add: example_run)
  show ?thesis
    using c t offline_run
      C7_service_failure_aborts_before_raster [of offline_world]
      C7_service_failure_aborts_before_raster [of "example_world 48000 example_grid"]
    by simp
qed

lemma decimate_calculate [simp]: "decimate (w\<lparr>calculate := c\<rparr>) = decimate w"
  by (rule ext) (simp add: decimate_def split: sum.splits)

lemma interpolate_calculate [simp]: "interpolate (w\<lparr>calculate := c\<rparr>) = interpolate w"
  by (intro ext) (simp add: interpolate_def)

lemma reduction_to_pole_calculate [simp]: "reduction_to_pole (w\<lparr>calculate := c\<rparr>) = reduction_to_pole w"
  by (intro ext) (simp add: reduction_to_pole_def split: xr.splits sum.splits)

lemma reduce_stage_calculate [simp]: "reduce_stage (w\<lparr>calculate := c\<rparr>) = reduce_stage w"
  by (intro ext) (simp add: reduce_stage_def split: sum.splits)

lemma process_calculate [simp]: "process (w\<lparr>calculate := c\<rparr>) = process w"
  by (intro ext) (simp add: process_def split: sum.splits prod.splits)

text \<open>Claim C9. Two runs whose service answers give the same inclination and declination and
  any two total intensities, everything else being equal, write the same raster (array and
  transform) and end the same way; the baseline subtracted from the field column is the
  constant 48925.\<close>

theorem C9_total_intensity_not_used:
  assumes "calculate w latitude longitude altitude date = Inr r1"
    and "c2 latitude longitude altitude date = Inr r2"
    and "site_parameters r1 = Inr (inc, dec, t1)"
    and "site_parameters r2 = Inr (inc, dec, t2)"
  shows "rasters_written (fst (run (w\<lparr>calculate := c2\<rparr>))) = rasters_written (fst (run w))
       \<and> snd (run (w\<lparr>calculate := c2\<rparr>)) = snd (run w)
       \<and> (\<forall>df xs ys field. column df '' X_BD72_m'' = Inr xs \<and> column df '' Y_BD72_m'' = Inr ys
             \<and> column df fieldCompute = Inr field \<longrightarrow>
            decimate (w\<lparr>calculate := c2\<rparr>) df = reducer_filter w spacingBlock (xs, ys) (minus_const field 48925))"
proof -
  have "decimate (w\<lparr>calculate := c2\<rparr>) df = reducer_filter w spacingBlock (xs, ys) (minus_const field 48925)"
    if "column df '' X_BD72_m'' = Inr xs" "column df '' Y_BD72_m'' = Inr ys" "column df fieldCompute = Inr field"
    for df xs ys field
    using that by (simp add: decimate_def)
  moreover have "rasters_written (fst (run (w\<lparr>calculate := c2\<rparr>))) = rasters_written (fst (run w))
       \<and> snd (run (w\<lparr>calculate := c2\<rparr>)) = snd (run w)"
    using assms by (simp add: run_def split: sum.splits)
  ultimately show ?thesis by blast
qed

theorem C9_witness:
  "calculate (example_world 48000 example_grid) latitude longitude altitude date = Inr (example_results 48000)
   \<and> site_parameters (example_results 48000) = Inr (JNum 65, JNum 2, JNum 48000)
   \<and> site_parameters (example_results 51000) = Inr (JNum 65, JNum 2, JNum 51000)
   \<and> rasters_written (fst (run ((example_world 48000 example_grid)
         \<lparr>calculate := (\<lambda>lat lon alt day. Inr (example_results 51000))\<rparr>)))
       = [(dir @ resultsTif, example_raster)]
   \<and> rasters_written (fst (run (example_world 48000 example_grid))) = [(dir @ resultsTif, example_raster)]"
  using C9_total_intensity_not_used [of "example_world 48000 example_grid" "example_results 48000"
      "\<lambda>lat lon alt day. Inr (example_results 51000)" "example_results 51000"
      "JNum 65" "JNum 2" "JNum 48000" "JNum 51000"]
    example_calculate [of 48000 example_grid] example_site_parameters [of 48000]
    example_site_parameters [of 51000] example_run [of 48000]
  by simp





lemma mask_cell:
  "i < length (northing g) \<Longrightarrow> j < length (easting g) \<Longrightarrow>
   mask coordinates m g ! i ! j = near coordinates m (easting g ! j) (northing g ! i)"
  by (simp add: mask_def)


lemma where_mask_cell:
  assumes "i < length (where_mask m cs)" "j < length (where_mask m cs ! i)"
  shows "i < length m \<and> i < length cs \<and> j < length (m ! i) \<and> j < length (cs ! i)
       \<and> where_mask m cs ! i ! j = (if m ! i ! j then cs ! i ! j else NaN)"
  using assms by (auto simp: where_mask_def)






lemma sqrt_le_threshold: "0 \<le> m \<Longrightarrow> sqrt x \<le> m \<longleftrightarrow> x \<le> m\<^sup>2"
  by (metis abs_of_nonneg real_sqrt_abs real_sqrt_le_iff)

lemma near_iff:
  "0 \<le> m \<Longrightarrow> near coordinates m x y \<longleftrightarrow>
     (\<exists>k. k < length (fst coordinates) \<and> k < length (snd coordinates)
        \<and> sqrt ((fst coordinates ! k - x)\<^sup>2 + (snd coordinates ! k - y)\<^sup>2) \<le> m)"
  unfolding near_def list_ex_iff set_zip by (fastforce simp: sqrt_le_threshold)

text \<open>Claim C5. A cell of the interpolated (masked) grid that carries a value lies within the
  threshold (20) of at least one decimated sample point; a cell farther than that from
  every sample point is NaN.\<close>

theorem C5_defined_cells_are_near_a_sample:
  assumes "interpolate w coordinates magField = Inr (region, grid_full, grid)"
    and "(name, g) \<in> set grid"
    and "i < length (cells g)" and "j < length (cells g ! i)"
  shows "i < length (northing g) \<and> j < length (easting g)
       \<and> (cells g ! i ! j \<noteq> NaN \<longrightarrow>
            (\<exists>k. k < length (fst coordinates) \<and> k < length (snd coordinates)
               \<and> sqrt ((fst coordinates ! k - easting g ! j)\<^sup>2
                       + (snd coordinates ! k - northing g ! i)\<^sup>2) \<le> 20))
       \<and> ((\<forall>k. k < length (fst coordinates) \<and> k < length (snd coordinates) \<longrightarrow>
              20 < sqrt ((fst coordinates ! k - easting g ! j)\<^sup>2
                       + (snd coordinates ! k - northing g ! i)\<^sup>2))
            \<longrightarrow> cells g ! i ! j = NaN)"
proof -
  from assms(1) have "grid = distance_mask coordinates 20 grid_full"
    by (auto simp: interpolate_def Let_def split: sum.splits)
  with assms(2) obtain g0 where g: "g = distance_mask_array coordinates 20 g0"
    by (auto simp: distance_mask_def)
  have cg: "cells g = where_mask (mask coordinates 20 g0) (cells g0)"
    and co: "northing g = northing g0" "easting g = easting g0"
    using g by (simp_all add: distance_mask_array_def)
  from where_mask_cell [of i "mask coordinates 20 g0" "cells g0" j] assms(3,4) cg
  have w: "i < length (mask coordinates 20 g0)" "j < length (mask coordinates 20 g0 ! i)"
    "cells g ! i ! j = (if mask coordinates 20 g0 ! i ! j then cells g0 ! i ! j else NaN)"
    by simp_all
  from w(1) have i: "i < length (northing g0)" by (simp add: mask_def)
  with w(2) have j: "j < length (easting g0)" by (simp add: mask_def)
  have n: "near coordinates 20 (easting g0 ! j) (northing g0 ! i)" if "cells g ! i ! j \<noteq> NaN"
    using that w(3) mask_cell [OF i j, of coordinates 20] by (simp split: if_splits)
  show ?thesis
    using i j co n near_iff [of 20 coordinates "easting g0 ! j" "northing g0 ! i"]
    by (auto simp: not_less [symmetric])
qed

theorem C5_witness:
  "interpolate (example_world 48000 example_grid) ([0, 10], [0, 10]) [5, -5]
     = Inr ((-50, 60, -50, 60), example_grid, distance_mask ([0, 10], [0, 10]) 20 example_grid)
   \<and> distance_mask ([0, 10], [0, 10]) 20 example_grid
       = [(''total_field_anomaly'', \<lparr>northing = [0, 10], easting = [0, 10, 100],
             cells = [[Val 1, NaN, NaN], [Val 3, Val 2, NaN]]\<rparr>)]
   \<and> (\<exists>k. k < length (fst ([0, 10], [0, 10 :: real])) \<and> k < length (snd ([0 :: real, 10], [0, 10 :: real]))
          \<and> sqrt ((fst ([0, 10], [0, 10 :: real]) ! k - [0, 10, 100] ! 1)\<^sup>2
                 + (snd ([0, 10 :: real], [0, 10]) ! k - [0, 10] ! 1)\<^sup>2) \<le> 20)"
proof -
  have d: "distance_mask ([0, 10], [0, 10]) 20 example_grid
       = [(''total_field_anomaly'', \<lparr>northing = [0, 10], easting = [0, 10, 100],
             cells = [[Val 1, NaN, NaN], [Val 3, Val 2, NaN]]\<rparr>)]"
    by (simp add: distance_mask_def distance_mask_array_def mask_def near_def where_mask_def
        example_grid_def example_array_def)
  show ?thesis
    using C5_defined_cells_are_near_a_sample [OF example_interpolate [of 48000 example_grid],
        of "''total_field_anomaly''" "\<lparr>northing = [0, 10], easting = [0, 10, 100],
             cells = [[Val 1, NaN, NaN], [Val 3, Val 2, NaN]]\<rparr>" 1 1]
      example_interpolate [of 48000 example_grid] d
    by simp
qed

text \<open>Claim C6. Block reduction yields one point per occupied bin (the occupied bins are listed
  once each), the value of each is the median of the values of the input points in that
  bin, and there are no more output points than input points.\<close>

theorem C6_block_reduction_one_median_per_bin:
  "length (BlockReduce_filter spacing pts) \<le> length pts
   \<and> length (BlockReduce_filter spacing pts) = card (block spacing ` set pts)
   \<and> distinct (occupied spacing pts)
   \<and> set (occupied spacing pts) = block spacing ` set pts
   \<and> map (\<lambda>p. snd (snd p)) (BlockReduce_filter spacing pts) =
       map (\<lambda>k. median (map (\<lambda>p. snd (snd p)) (filter (\<lambda>p. block spacing p = k) pts)))
         (occupied spacing pts)"
proof -
  have "length (BlockReduce_filter spacing pts) = length (remdups (map (block spacing) pts))"
    by (simp add: BlockReduce_filter_def occupied_def)
  moreover have "length (remdups (map (block spacing) pts)) \<le> length (map (block spacing) pts)"
    by (rule length_remdups_leq)
  moreover have "length (remdups (map (block spacing) pts)) = card (block spacing ` set pts)"
    by (simp add: length_remdups_card_conv)
  ultimately show ?thesis
    by (simp add: BlockReduce_filter_def occupied_def reduce_block_def members_def o_def)
qed

lemma sort_mset_cong: "mset xs = mset ys \<Longrightarrow> sort xs = sort (ys :: real list)"
  by (metis properties_for_sort sorted_sort mset_sort)

lemma median_mset_cong: "mset xs = mset ys \<Longrightarrow> median xs = median ys"
  by (simp add: median_def sort_mset_cong [of xs ys])

lemma reduce_block_mset_cong: "mset ps = mset qs \<Longrightarrow> reduce_block ps = reduce_block qs"
proof -
  assume "mset ps = mset qs"
  then have "mset (map h ps) = mset (map h qs)" for h :: "real \<times> real \<times> real \<Rightarrow> real"
    by (metis mset_map)
  then show ?thesis
    unfolding reduce_block_def by (metis median_mset_cong)
qed

text \<open>Claim C8. Block reduction depends only on the input points and the spacing: two
  presentations of the same points give the same output points (coordinates and values),
  bin by bin; the median of an even number of values is the average of the two middle
  ones.\<close>

theorem C8_block_reduction_depends_on_point_set_only:
  assumes "mset pts = mset pts'"
  shows "mset (BlockReduce_filter spacing pts) = mset (BlockReduce_filter spacing pts')
       \<and> (\<forall>k. reduce_block (members spacing pts k) = reduce_block (members spacing pts' k))
       \<and> (\<forall>xs. xs \<noteq> [] \<and> even (length xs) \<longrightarrow>
             median xs = (sort xs ! (length xs div 2 - 1) + sort xs ! (length xs div 2)) / 2)"
proof -
  have r: "reduce_block (members spacing pts k) = reduce_block (members spacing pts' k)" for k
    using assms by (intro reduce_block_mset_cong) (simp add: members_def mset_filter)
  have "set (map (block spacing) pts) = set (map (block spacing) pts')"
    using assms by (metis mset_eq_setD set_map)
  then have "mset (occupied spacing pts) = mset (occupied spacing pts')"
    unfolding occupied_def by (metis set_eq_iff_mset_remdups_eq)
  then have "mset (map (\<lambda>k. reduce_block (members spacing pts k)) (occupied spacing pts))
           = mset (map (\<lambda>k. reduce_block (members spacing pts k)) (occupied spacing pts'))"
    by (metis mset_map)
  then have "mset (BlockReduce_filter spacing pts) = mset (BlockReduce_filter spacing pts')"
    by (simp add: BlockReduce_filter_def r)
  moreover have "median xs = (sort xs ! (length xs div 2 - 1) + sort xs ! (length xs div 2)) / 2"
    if "even (length xs)" for xs
    using that by (simp add: median_def Let_def)
  ultimately show ?thesis using r by blast
qed

theorem C8_witness:
  "mset [(0, 0, 1), (1, 1, 3), (7, 0, 2 :: real)] = mset [(7 :: real, 0 :: real, 2), (1, 1, 3), (0, 0, 1)]
   \<and> mset (BlockReduce_filter 5 [(0, 0, 1), (1, 1, 3), (7, 0, 2)])
     = mset (BlockReduce_filter 5 [(7, 0, 2), (1, 1, 3), (0, 0, 1)])
   \<and> median [1, 3] = 2"
proof -
  have p: "mset [(0, 0, 1), (1, 1, 3), (7, 0, 2 :: real)] = mset [(7 :: real, 0 :: real, 2), (1, 1, 3), (0, 0, 1)]"
    by (simp add: add.commute add.left_commute)
  have m: "median [1, 3] = 2" by (simp add: median_def)
  show ?thesis
    using p m C8_block_reduction_depends_on_point_set_only [OF p, of 5] by blast
qed






lemma reducedMag_success:
  assumes "reducedMag gridReduced = Inr (rows, cols, arr)"
  shows "\<exists>name g. gridReduced = [(name, g)] \<and> rows = length (northing g)
        \<and> cols = length (easting g) \<and> arr = rev (cells g)"
  using assms
  by (auto simp: reducedMag_def shape_def split: list.splits prod.splits if_splits)

text \<open>Claim C4. The raster is declared with the row count of the flipped array as height and
  its column count as width; its transform is computed from the padded region (the bounds
  of the decimated coordinates, widened by 50 on each side) and the array shape, and sends
  pixel (0, 0) to (west edge, north edge) of the padded region.\<close>

theorem C4_raster_shape_and_origin:
  assumes "interpolate w coordinates magField = Inr (region, grid_full, grid)"
    and "make_raster region gridReduced = Inr r"
    and "\<forall>(name, g) \<in> set gridReduced.
           length (cells g) = length (northing g) \<and> (\<forall>row \<in> set (cells g). length row = length (easting g))"
  shows "height r = length (band r)
       \<and> (\<forall>row \<in> set (band r). length row = width r)
       \<and> (\<exists>name g. gridReduced = [(name, g)] \<and> band r = rev (cells g))
       \<and> (\<exists>west east south north. get_region coordinates = Inr (west, east, south, north)
            \<and> region = (west - 50, east + 50, south - 50, north + 50)
            \<and> transform r = from_bounds (west - 50) (south - 50) (east + 50) (north + 50) (width r) (height r)
            \<and> apply_affine (transform r) 0 0 = (west - 50, north + 50))"
proof -
  from assms(2) obtain rows cols arr r0 r1 r2 r3 where
    m: "reducedMag gridReduced = Inr (rows, cols, arr)" "region = (r0, r1, r2, r3)"
    "r = \<lparr>height = rows, width = cols, count = 1, crs = lambert_72,
          transform = from_bounds r0 r2 r1 r3 cols rows, band = arr\<rparr>"
    by (auto simp: make_raster_def split: sum.splits prod.splits)
  from reducedMag_success [OF m(1)] obtain name g where
    g: "gridReduced = [(name, g)]" "rows = length (northing g)" "cols = length (easting g)"
       "arr = rev (cells g)"
    by blast
  from assms(3) g have wf: "length (cells g) = length (northing g)"
    "\<forall>row \<in> set (cells g). length row = length (easting g)"
    by simp_all
  from assms(1) m(2) obtain west east south north where
    reg: "get_region coordinates = Inr (west, east, south, north)"
         "(r0, r1, r2, r3) = (west - 50, east + 50, south - 50, north + 50)"
    by (auto simp: interpolate_def Let_def pad_region_def split: sum.splits prod.splits)
  have "apply_affine (transform r) 0 0 = (r0, r3)"
    by (simp add: m(3) apply_affine_def from_bounds_def)
  then show ?thesis
    using m g wf reg by auto
qed

theorem C4_witness:
  "interpolate (example_world 48000 example_grid) ([0, 10], [0, 10]) [5, -5]
     = Inr ((-50, 60, -50, 60), example_grid, distance_mask ([0, 10], [0, 10]) 20 example_grid)
   \<and> make_raster (-50, 60, -50, 60)
       [(''total_field_anomaly'', \<lparr>northing = [0, 10], easting = [0, 10, 100],
           cells = [[Val 1, Val 3, NaN], [Val 3, Val 2, NaN]]\<rparr>)] = Inr example_raster
   \<and> height example_raster = length (band example_raster)
   \<and> list_all (\<lambda>row. length row = width example_raster) (band example_raster)
   \<and> apply_affine (transform example_raster) 0 0 = (-50, 60)"
proof -
  have wf: "\<forall>(name, g) \<in> set [(''total_field_anomaly'', \<lparr>northing = [0, 10 :: real], easting = [0, 10, 100 :: real],
           cells = [[Val 1, Val 3, NaN], [Val 3, Val 2, NaN]]\<rparr>)].
       length (cells g) = length (northing g) \<and> (\<forall>row \<in> set (cells g). length row = length (easting g))"
    by simp
  have g: "get_region ([0, 10], [0, 10]) = Inr (0, 10, 0, 10)"
    by (simp add: get_region_def)
  show ?thesis
    using C4_raster_shape_and_origin [OF example_interpolate [of 48000 example_grid] example_make_raster wf]
      example_interpolate [of 48000 example_grid] example_make_raster g
    by (simp add: list_all_iff example_raster_def apply_affine_def from_bounds_def)
qed

end
